theory Spec2Isabelle
  imports Complex_Main "HOL-Library.Sublist"
begin

section \<open>Values and failures\<close>

text \<open>
  The notebook \<^verbatim>\<open>Using IBTrACS.ipynb\<close> handles floating-point columns whose
  entries may be NaN. Only two tests are applied to them by the code: \<^verbatim>\<open>np.isnan(x)\<close>
  and \<^verbatim>\<open>x != -9999\<close>. A float is therefore either NaN or a number, taken as an exact
  real (rounding of doubles is not modelled).
\<close>

datatype pyfloat = NaN | Num real

fun isnan :: "pyfloat \<Rightarrow> bool" where
  "isnan NaN = True"
| "isnan (Num x) = False"

text \<open>Python's \<^verbatim>\<open>x != c\<close> on floats: NaN differs from every number.\<close>

fun ne :: "pyfloat \<Rightarrow> real \<Rightarrow> bool" where
  "ne NaN c = True"
| "ne (Num x) c = (x \<noteq> c)"

text \<open>Python's \<^verbatim>\<open>x <= y\<close> on floats: every comparison with NaN is false.\<close>

fun le :: "pyfloat \<Rightarrow> pyfloat \<Rightarrow> bool" where
  "le (Num x) (Num y) = (x \<le> y)"
| "le _ _ = False"

text \<open>
  The ways a run of the cells can end without a value. \<open>SystemExit\<close> is what the call
  \<^verbatim>\<open>exit()\<close> of the notebook does: it ends the hosting Python process. The other
  constructors but the first are exceptions raised by the library calls the cells make.
  \<open>StormNotFound\<close> is the typed failure the specification names; no cell constructs it.
\<close>

datatype failure =
  StormNotFound
| SystemExit
| IndexError
| UnicodeDecodeError
| TypeError
| ValueError
| OverflowError


definition bind_r :: "failure + 'a \<Rightarrow> ('a \<Rightarrow> failure + 'b) \<Rightarrow> failure + 'b" where
  "bind_r m f = (case m of Inl e \<Rightarrow> Inl e | Inr x \<Rightarrow> f x)"

section \<open>CSV and shapefile sections: selection of rows by name\<close>

text \<open>
  A row of the CSV table, with the columns the notebook names. A row of the shapefile's
  table carries a \<open>geometry\<close> column besides. A DataFrame is the list of its rows, in
  row order.
\<close>

record row =
  SID :: string
  SEASON :: int
  NAME :: string
  LAT :: pyfloat
  LON :: pyfloat
  STORM_SPEED :: pyfloat

record gdf_row = row +
  geometry :: "(real \<times> real) list"

text \<open>
  \<^verbatim>\<open>df[df['NAME'] == name]\<close>: boolean-mask indexing keeps the rows whose mask entry is
  true, unchanged and in their order.
\<close>

definition select_name :: "('a row_scheme) list \<Rightarrow> string \<Rightarrow> ('a row_scheme) list" where
  "select_name df name = filter (\<lambda>r. NAME r = name) df"

text \<open>\<^verbatim>\<open>ibtracs_phoebe=ibtracs_data[ibtracs_data['NAME'] == 'PHOEBE']\<close>\<close>

definition ibtracs_phoebe :: "row list \<Rightarrow> row list" where
  "ibtracs_phoebe ibtracs_data = select_name ibtracs_data ''PHOEBE''"

text \<open>\<^verbatim>\<open>phoebe_gdf = ibtracs_gdf[ibtracs_gdf['NAME'] == 'PHOEBE']\<close>\<close>

definition phoebe_gdf :: "gdf_row list \<Rightarrow> gdf_row list" where
  "phoebe_gdf ibtracs_gdf = select_name ibtracs_gdf ''PHOEBE''"

text \<open>
  The two selections as extractions for an arbitrary name: the outcome is always a
  value, since the indexing expression raises nothing on a table with a NAME column.
\<close>

definition tabular_extract :: "row list \<Rightarrow> string \<Rightarrow> failure + row list" where
  "tabular_extract ibtracs_data name = Inr (select_name ibtracs_data name)"

definition geometry_extract :: "gdf_row list \<Rightarrow> string \<Rightarrow> failure + gdf_row list" where
  "geometry_extract ibtracs_gdf name = Inr (select_name ibtracs_gdf name)"

section \<open>NetCDF section\<close>

subsection \<open>The file and the notebook's variables\<close>

text \<open>
  The variables of the NetCDF file the cells read. \<open>sid\<close> is a character array: one row
  per storm, each cell a byte string of length at most one. A cell that holds the NUL
  byte, the fill value of a character variable, reads as the empty byte string, and the
  NetCDF library returns it masked. The other variables are two-dimensional arrays of
  floats, one row per storm (a one-dimensional array is the case where every row has
  one entry); the masks that the library may attach to these are not modelled: every
  entry of them is a float.
\<close>

record nc_file =
  var_sid :: "string list list"
  var_lat :: "pyfloat list list"
  var_lon :: "pyfloat list list"
  var_wmo_wind :: "pyfloat list list"
  var_wmo_pres :: "pyfloat list list"
  var_time :: "pyfloat list list"

text \<open>A data point of the comprehension in the last cell: \<^verbatim>\<open>(lat, lon, wind, pres, t)\<close>.\<close>

type_synonym obs = "pyfloat \<times> pyfloat \<times> pyfloat \<times> pyfloat \<times> pyfloat"

text \<open>The global variables the NetCDF cells assign.\<close>

record notebook =
  storm_ids :: "string list"
  latitudes :: "pyfloat list list"
  longitudes :: "pyfloat list list"
  wmo_wind :: "pyfloat list list"
  wmo_pres :: "pyfloat list list"
  times_var :: "pyfloat list list"
  unique_storm_ids :: "string set"
  target_sid :: string
  storm_indices :: "nat list"
  filtered_lats :: "pyfloat list"
  filtered_lons :: "pyfloat list"
  filtered_winds :: "pyfloat list"
  filtered_pressures :: "pyfloat list"
  filtered_times :: "pyfloat list"
  valid_data :: "obs list"

subsection \<open>Decoding the storm identifiers\<close>

text \<open>
  \<^verbatim>\<open>storm_ids = [''.join(sid.astype(str)).strip() for sid in storm_ids]\<close>

  \<^verbatim>\<open>astype(str)\<close> decodes each cell as ASCII and raises on a byte above 127;
  \<^verbatim>\<open>''.join\<close> concatenates the cells and raises TypeError on a masked cell, which
  is not a string; \<^verbatim>\<open>strip()\<close> removes the whitespace characters at both ends.
  Among the characters below 256 Python's whitespace is 9 to 13, 28 to 32, 133 and 160.
\<close>

definition is_ascii :: "char \<Rightarrow> bool" where
  "is_ascii c = ((of_char c :: nat) < 128)"

definition isspace :: "char \<Rightarrow> bool" where
  "isspace c =
     (let n = (of_char c :: nat)
      in (9 \<le> n \<and> n \<le> 13) \<or> (28 \<le> n \<and> n \<le> 32) \<or> n = 133 \<or> n = 160)"

definition strip :: "string \<Rightarrow> string" where
  "strip s = rev (dropWhile isspace (rev (dropWhile isspace s)))"

definition astype_str :: "string list \<Rightarrow> failure + string list" where
  "astype_str sid = (if list_all (list_all is_ascii) sid then Inr sid else Inl UnicodeDecodeError)"

text \<open>A masked cell: the empty byte string, or NUL bytes only.\<close>

definition is_masked :: "string \<Rightarrow> bool" where
  "is_masked cell = list_all (\<lambda>c. c = CHR 0x00) cell"

definition join :: "string list \<Rightarrow> failure + string" where
  "join sid = (if list_ex is_masked sid then Inl TypeError else Inr (concat sid))"

definition decode_sid :: "string list \<Rightarrow> failure + string" where
  "decode_sid sid =
     bind_r (astype_str sid) (\<lambda>decoded. bind_r (join decoded) (\<lambda>joined. Inr (strip joined)))"

fun decode_all :: "string list list \<Rightarrow> failure + string list" where
  "decode_all [] = Inr []"
| "decode_all (sid # rest) =
     bind_r (decode_sid sid) (\<lambda>d. bind_r (decode_all rest) (\<lambda>ds. Inr (d # ds)))"

text \<open>The cell that reads the variables and decodes the identifiers.\<close>

definition read_variables :: "nc_file \<Rightarrow> notebook \<Rightarrow> failure + notebook" where
  "read_variables nc s =
     bind_r (decode_all (var_sid nc)) (\<lambda>ids.
       Inr (s\<lparr>storm_ids := ids,
              latitudes := var_lat nc,
              longitudes := var_lon nc,
              wmo_wind := var_wmo_wind nc,
              wmo_pres := var_wmo_pres nc,
              times_var := var_time nc,
              unique_storm_ids := set ids\<rparr>))"

subsection \<open>Checking that the target is present\<close>

text \<open>
  \<^verbatim>\<open>if target_sid in storm_ids: ... else: ...; exit()  # Exit if the target SID is not found\<close>
\<close>

definition verify_target :: "string \<Rightarrow> notebook \<Rightarrow> failure + notebook" where
  "verify_target target s =
     (let s1 = s\<lparr>target_sid := target\<rparr>
      in if target_sid s1 \<in> set (storm_ids s1) then Inr s1 else Inl SystemExit)"

subsection \<open>Selecting the storm's data\<close>

text \<open>\<^verbatim>\<open>np.where(np.array(storm_ids) == target_sid)[0]\<close>: the positions that hold the target, ascending.\<close>

definition np_where_eq :: "string list \<Rightarrow> string \<Rightarrow> nat list" where
  "np_where_eq ids target = filter (\<lambda>i. ids ! i = target) [0..<length ids]"

text \<open>
  \<^verbatim>\<open>a[storm_indices].flatten()\<close>: indexing with an index array picks those rows and
  raises IndexError when an index is out of bounds; \<open>flatten\<close> joins the rows.
\<close>

definition take_rows :: "'a list list \<Rightarrow> nat list \<Rightarrow> failure + 'a list list" where
  "take_rows a idx =
     (if list_all (\<lambda>i. i < length a) idx then Inr (map (\<lambda>i. a ! i) idx) else Inl IndexError)"

definition select_flat :: "'a list list \<Rightarrow> nat list \<Rightarrow> failure + 'a list" where
  "select_flat a idx = bind_r (take_rows a idx) (\<lambda>rows. Inr (concat rows))"

definition select_storm :: "notebook \<Rightarrow> failure + notebook" where
  "select_storm s =
     (let idx = np_where_eq (storm_ids s) (target_sid s) in
      bind_r (select_flat (latitudes s) idx) (\<lambda>lats.
      bind_r (select_flat (longitudes s) idx) (\<lambda>lons.
      bind_r (select_flat (wmo_wind s) idx) (\<lambda>winds.
      bind_r (select_flat (wmo_pres s) idx) (\<lambda>pressures.
      bind_r (select_flat (times_var s) idx) (\<lambda>ts.
        Inr (s\<lparr>storm_indices := idx,
               filtered_lats := lats,
               filtered_lons := lons,
               filtered_winds := winds,
               filtered_pressures := pressures,
               filtered_times := ts\<rparr>)))))))"

subsection \<open>Filtering the valid data points\<close>

text \<open>
  \<^verbatim>\<open>valid_data = [(lat, lon, wind, pres, t) for lat, lon, wind, pres, t in zip(...)
     if not np.isnan(lat) and not np.isnan(lon) and wind != -9999 and pres != -9999]\<close>

  followed, when \<open>valid_data\<close> is not empty, by
  \<^verbatim>\<open>filtered_lats, ..., filtered_times = zip(*valid_data)\<close>. The map drawn in the same
  cell is presentation and is not modelled.
\<close>

definition zip5 :: "pyfloat list \<Rightarrow> pyfloat list \<Rightarrow> pyfloat list \<Rightarrow> pyfloat list \<Rightarrow> pyfloat list \<Rightarrow> obs list" where
  "zip5 as bs cs ds es = zip as (zip bs (zip cs (zip ds es)))"

fun valid :: "obs \<Rightarrow> bool" where
  "valid (lat, lon, wind, pres, t) =
     (\<not> isnan lat \<and> \<not> isnan lon \<and> ne wind (- 9999) \<and> ne pres (- 9999))"

fun obs_lat :: "obs \<Rightarrow> pyfloat" where "obs_lat (lat, lon, wind, pres, t) = lat"
fun obs_lon :: "obs \<Rightarrow> pyfloat" where "obs_lon (lat, lon, wind, pres, t) = lon"
fun obs_wind :: "obs \<Rightarrow> pyfloat" where "obs_wind (lat, lon, wind, pres, t) = wind"
fun obs_pres :: "obs \<Rightarrow> pyfloat" where "obs_pres (lat, lon, wind, pres, t) = pres"
fun obs_time :: "obs \<Rightarrow> pyfloat" where "obs_time (lat, lon, wind, pres, t) = t"

text \<open>The candidates of the comprehension: the zip of the five selected columns.\<close>

definition candidates :: "notebook \<Rightarrow> obs list" where
  "candidates s =
     zip5 (filtered_lats s) (filtered_lons s) (filtered_winds s) (filtered_pressures s)
       (filtered_times s)"

definition filter_valid :: "notebook \<Rightarrow> notebook" where
  "filter_valid s =
     (let vd = filter valid (candidates s) in
      if vd \<noteq> [] then
        s\<lparr>valid_data := vd,
          filtered_lats := map obs_lat vd,
          filtered_lons := map obs_lon vd,
          filtered_winds := map obs_wind vd,
          filtered_pressures := map obs_pres vd,
          filtered_times := map obs_time vd\<rparr>
      else s\<lparr>valid_data := vd\<rparr>)"

subsection \<open>The extraction as a whole\<close>

text \<open>
  The cells in notebook order, started in any state \<open>s\<close> of the notebook's variables.
  The Track is \<open>valid_data\<close> of the state reached.
\<close>

definition array_select :: "nc_file \<Rightarrow> string \<Rightarrow> notebook \<Rightarrow> failure + notebook" where
  "array_select nc target s =
     bind_r (read_variables nc s) (\<lambda>s1.
     bind_r (verify_target target s1) select_storm)"

definition array_extract :: "nc_file \<Rightarrow> string \<Rightarrow> notebook \<Rightarrow> failure + notebook" where
  "array_extract nc target s =
     bind_r (array_select nc target s) (\<lambda>s3. Inr (filter_valid s3))"

definition array_track :: "nc_file \<Rightarrow> string \<Rightarrow> notebook \<Rightarrow> failure + obs list" where
  "array_track nc target s =
     bind_r (array_extract nc target s) (\<lambda>s4. Inr (valid_data s4))"

text \<open>
  The value of the \<^verbatim>\<open>zip(...)\<close> over which the comprehension runs, after the cells up
  to the selection: the candidate data points of the target storm.
\<close>

definition array_candidates :: "nc_file \<Rightarrow> string \<Rightarrow> notebook \<Rightarrow> failure + obs list" where
  "array_candidates nc target s =
     bind_r (array_select nc target s) (\<lambda>s3. Inr (candidates s3))"

subsection \<open>Source positions\<close>

text \<open>The data point of the file at storm \<open>i\<close>, time step \<open>j\<close>.\<close>

definition obs_at :: "nc_file \<Rightarrow> nat \<Rightarrow> nat \<Rightarrow> obs" where
  "obs_at nc i j =
     (var_lat nc ! i ! j, var_lon nc ! i ! j, var_wmo_wind nc ! i ! j, var_wmo_pres nc ! i ! j,
      var_time nc ! i ! j)"

text \<open>
  The arrays of a file share their shape: as many rows as \<open>sid\<close> has, and in each row
  as many entries as \<open>lat\<close> has there.
\<close>

definition same_shape :: "nat \<Rightarrow> pyfloat list list \<Rightarrow> pyfloat list list \<Rightarrow> bool" where
  "same_shape n a b =
     (length a = n \<and> length b = n \<and> list_all (\<lambda>i. length (b ! i) = length (a ! i)) [0..<n])"

definition co_indexed :: "nc_file \<Rightarrow> bool" where
  "co_indexed nc =
     (let n = length (var_sid nc) in
      same_shape n (var_lat nc) (var_lon nc) \<and>
      same_shape n (var_lat nc) (var_wmo_wind nc) \<and>
      same_shape n (var_lat nc) (var_wmo_pres nc) \<and>
      same_shape n (var_lat nc) (var_time nc))"

section \<open>Converting the times to calendar dates\<close>

text \<open>
  \<^verbatim>\<open>start_date = datetime(1858, 11, 17)  # Julian day zero reference\<close>

  \<^verbatim>\<open>filtered_dates = [start_date + timedelta(days=t) for t in filtered_times]\<close>

  The cell relies on Python's \<open>datetime\<close> module. Its arithmetic is modelled after the
  module's Python source: a date is converted to its proleptic Gregorian ordinal
  (1 January of year 1 is day 1), the ordinals are added, and the sum is converted
  back. Python's integers are \<open>int\<close>; the float operations of the \<open>timedelta\<close>
  constructor are taken over exact reals.
\<close>

subsection \<open>Ordinals\<close>











subsection \<open>Durations\<close>









subsection \<open>Dates with a time of day\<close>




subsection \<open>The conversion cell\<close>







section \<open>Predicates used in the properties\<close>

text \<open>
  A list of data points is ascending in time when every adjacent pair satisfies
  \<^verbatim>\<open>timestamp[i] <= timestamp[i+1]\<close>.
\<close>

definition ascending :: "obs list \<Rightarrow> bool" where
  "ascending tr = (\<forall>i. Suc i < length tr \<longrightarrow> le (obs_time (tr ! i)) (obs_time (tr ! Suc i)))"

text \<open>A string is padded when it starts or ends with a whitespace character.\<close>

definition padded :: "string \<Rightarrow> bool" where
  "padded x = (x \<noteq> [] \<and> (isspace (hd x) \<or> isspace (last x)))"

section \<open>Example inputs\<close>

text \<open>
  Concrete tables and files on which the theorems below are evaluated. \<open>fresh\<close> is a
  notebook in which none of the NetCDF cells has run yet. \<open>cells\<close> lays a string out
  as a row of one-character cells.
\<close>

definition fresh :: notebook where
  "fresh = \<lparr>storm_ids = [], latitudes = [], longitudes = [], wmo_wind = [], wmo_pres = [],
     times_var = [], unique_storm_ids = {}, target_sid = [], storm_indices = [],
     filtered_lats = [], filtered_lons = [], filtered_winds = [], filtered_pressures = [],
     filtered_times = [], valid_data = []\<rparr>"

definition cells :: "string \<Rightarrow> string list" where
  "cells s = map (\<lambda>c. [c]) s"

definition row_ok :: row where
  "row_ok = \<lparr>SID = ''2004244S09093'', SEASON = 2005, NAME = ''PHOEBE'',
     LAT = Num (- 9), LON = Num 93, STORM_SPEED = Num 6\<rparr>"

definition row_nan :: row where
  "row_nan = \<lparr>SID = ''2004244S09093'', SEASON = 2005, NAME = ''PHOEBE'',
     LAT = NaN, LON = Num 92, STORM_SPEED = Num 7\<rparr>"

definition gdf_row_nan :: gdf_row where
  "gdf_row_nan = \<lparr>SID = ''2004244S09093'', SEASON = 2005, NAME = ''PHOEBE'',
     LAT = Num (- 10), LON = NaN, STORM_SPEED = Num 7, geometry = [(92, - 10), (91, - 11)]\<rparr>"

definition nc_example :: nc_file where
  "nc_example = \<lparr>
     var_sid = [cells ''2012166N09269  '', cells ''2012166N09269'', cells ''1999001N10200''],
     var_lat = [[Num 9, Num 9.5], [Num 10, NaN], [Num 20, Num 21]],
     var_lon = [[Num (- 91), Num (- 92)], [Num (- 93), Num (- 94)], [Num 100, Num 101]],
     var_wmo_wind = [[Num (- 9999), Num 42], [Num 45, Num 50], [Num 30, Num 35]],
     var_wmo_pres = [[Num 1005, Num 1002], [Num (- 9999), Num 990], [Num 1000, Num 999]],
     var_time = [[Num 56093, Num 56093.25], [Num 56093.5, Num 56093.75],
                 [Num 51179, Num 51179.25]]\<rparr>"

text \<open>A file whose only storm has no valid data point.\<close>

definition nc_all_missing :: nc_file where
  "nc_all_missing = \<lparr>
     var_sid = [cells ''2012166N09269''],
     var_lat = [[NaN, Num 9]],
     var_lon = [[Num (- 91), Num (- 92)]],
     var_wmo_wind = [[Num 40, Num (- 9999)]],
     var_wmo_pres = [[Num 1005, Num 1002]],
     var_time = [[Num 56093, Num 56093.25]]\<rparr>"

text \<open>A file whose only storm has its two valid data points in descending time order.\<close>

definition nc_descending :: nc_file where
  "nc_descending = \<lparr>
     var_sid = [cells ''2012166N09269''],
     var_lat = [[Num 9, Num 10]],
     var_lon = [[Num (- 91), Num (- 92)]],
     var_wmo_wind = [[Num 40, Num 45]],
     var_wmo_pres = [[Num 1005, Num 1002]],
     var_time = [[Num 2, Num 1]]\<rparr>"

section \<open>Properties\<close>

subsection \<open>Sequencing\<close>

lemma bind_r_Inl: "bind_r (Inl e) f = Inl e"
  by (simp add: bind_r_def)

lemma bind_r_Inr: "bind_r (Inr x) f = f x"
  by (simp add: bind_r_def)

lemma bind_r_eq_Inr: "bind_r m f = Inr y \<longleftrightarrow> (\<exists>x. m = Inr x \<and> f x = Inr y)"
  by (cases m) (simp_all add: bind_r_def)

lemma bind_r_eq_Inl: "bind_r m f = Inl e \<longleftrightarrow> m = Inl e \<or> (\<exists>x. m = Inr x \<and> f x = Inl e)"
  by (cases m) (simp_all add: bind_r_def)

subsection \<open>What each cell can raise\<close>

lemma decode_sid_Inl: "decode_sid sid = Inl e \<Longrightarrow> e = UnicodeDecodeError \<or> e = TypeError"
  by (auto simp: decode_sid_def astype_str_def join_def bind_r_eq_Inl split: if_splits)

lemma decode_all_Inl: "decode_all sids = Inl e \<Longrightarrow> e = UnicodeDecodeError \<or> e = TypeError"
  by (induction sids) (auto simp: bind_r_eq_Inl dest: decode_sid_Inl)

text \<open>A row with a masked cell between two letters does not decode.\<close>

lemma decode_sid_masked_cell: "decode_sid [''A'', [], ''B''] = Inl TypeError"
  by code_simp

lemma read_variables_Inl: "read_variables nc s = Inl e \<longleftrightarrow> decode_all (var_sid nc) = Inl e"
  by (auto simp: read_variables_def bind_r_eq_Inl)

lemma read_variables_Inr:
  "read_variables nc s = Inr s1 \<Longrightarrow> decode_all (var_sid nc) = Inr (storm_ids s1)"
  by (auto simp: read_variables_def bind_r_eq_Inr)

lemma read_variables_decoded:
  "decode_all (var_sid nc) = Inr ids \<Longrightarrow> \<exists>s1. read_variables nc s = Inr s1 \<and> storm_ids s1 = ids"
  by (simp add: read_variables_def bind_r_Inr)

lemma verify_target_Inr:
  "verify_target target s = Inr s1 \<longleftrightarrow> target \<in> set (storm_ids s) \<and> s1 = s\<lparr>target_sid := target\<rparr>"
  by (auto simp: verify_target_def Let_def)

lemma verify_target_Inl:
  "verify_target target s = Inl e \<longleftrightarrow> target \<notin> set (storm_ids s) \<and> e = SystemExit"
  by (auto simp: verify_target_def Let_def)

lemma select_flat_Inl: "select_flat a idx = Inl e \<Longrightarrow> e = IndexError"
  by (auto simp: select_flat_def take_rows_def bind_r_eq_Inl split: if_splits)

lemma select_storm_Inl: "select_storm s = Inl e \<Longrightarrow> e = IndexError"
  by (auto simp: select_storm_def Let_def bind_r_eq_Inl dest: select_flat_Inl)

text \<open>
  The run up to the selection ends in \<open>SystemExit\<close> exactly when the identifiers decode
  and the target is not among them.
\<close>

lemma array_select_exit:
  "array_select nc target s = Inl SystemExit \<longleftrightarrow>
     (\<exists>ids. decode_all (var_sid nc) = Inr ids \<and> target \<notin> set ids)"
proof
  assume "array_select nc target s = Inl SystemExit"
  then consider "read_variables nc s = Inl SystemExit"
    | s1 where "read_variables nc s = Inr s1" "verify_target target s1 = Inl SystemExit"
    | s1 s2 where "read_variables nc s = Inr s1" "verify_target target s1 = Inr s2"
        "select_storm s2 = Inl SystemExit"
    by (auto simp: array_select_def bind_r_eq_Inl)
  then show "\<exists>ids. decode_all (var_sid nc) = Inr ids \<and> target \<notin> set ids"
  proof cases
    case 1
    then show ?thesis by (auto simp: read_variables_Inl dest: decode_all_Inl)
  next
    case 2
    then show ?thesis by (auto simp: verify_target_Inl dest: read_variables_Inr)
  next
    case 3
    then show ?thesis by (auto dest: select_storm_Inl)
  qed
next
  assume "\<exists>ids. decode_all (var_sid nc) = Inr ids \<and> target \<notin> set ids"
  then obtain ids where ids: "decode_all (var_sid nc) = Inr ids" "target \<notin> set ids" by blast
  from read_variables_decoded [OF ids(1), of s] obtain s1
    where s1: "read_variables nc s = Inr s1" "storm_ids s1 = ids" by blast
  with ids(2) have "verify_target target s1 = Inl SystemExit"
    by (simp add: verify_target_Inl)
  with s1 show "array_select nc target s = Inl SystemExit"
    by (simp add: array_select_def bind_r_Inr bind_r_Inl)
qed

lemma array_select_present:
  assumes "array_select nc target s = Inr s3"
  shows "\<exists>ids. decode_all (var_sid nc) = Inr ids \<and> target \<in> set ids \<and> storm_ids s3 = ids
           \<and> target_sid s3 = target"
proof -
  from assms obtain s1 s2 where
    s1: "read_variables nc s = Inr s1" and s2: "verify_target target s1 = Inr s2"
    and s3: "select_storm s2 = Inr s3"
    by (auto simp: array_select_def bind_r_eq_Inr)
  from s3 have "storm_ids s3 = storm_ids s2" "target_sid s3 = target_sid s2"
    by (auto simp: select_storm_def Let_def bind_r_eq_Inr)
  moreover from s2 have "target \<in> set (storm_ids s1)" "storm_ids s2 = storm_ids s1"
    "target_sid s2 = target"
    by (auto simp: verify_target_Inr)
  ultimately show ?thesis using read_variables_Inr [OF s1] by simp
qed

subsection \<open>The Track of the NetCDF section\<close>

lemma valid_data_filter_valid: "valid_data (filter_valid s) = filter valid (candidates s)"
  by (simp add: filter_valid_def Let_def)

lemma array_track_Inr:
  "array_track nc target s = Inr tr \<longleftrightarrow>
     (\<exists>s3. array_select nc target s = Inr s3 \<and> tr = filter valid (candidates s3))"
  by (auto simp: array_track_def array_extract_def bind_r_eq_Inr valid_data_filter_valid)

lemma array_track_Inl: "array_track nc target s = Inl e \<longleftrightarrow> array_select nc target s = Inl e"
  by (auto simp: array_track_def array_extract_def bind_r_eq_Inl)

lemma valid_fields:
  "valid ob \<Longrightarrow> \<not> isnan (obs_lat ob) \<and> \<not> isnan (obs_lon ob) \<and>
     obs_wind ob \<noteq> Num (- 9999) \<and> obs_pres ob \<noteq> Num (- 9999)"
  by (cases ob) auto


text \<open>The two cells of the notebook are the extractions for the name PHOEBE.\<close>

lemma tabular_extract_phoebe: "tabular_extract ibtracs_data ''PHOEBE'' = Inr (ibtracs_phoebe ibtracs_data)"
  by (simp add: tabular_extract_def ibtracs_phoebe_def)

lemma geometry_extract_phoebe: "geometry_extract ibtracs_gdf ''PHOEBE'' = Inr (phoebe_gdf ibtracs_gdf)"
  by (simp add: geometry_extract_def phoebe_gdf_def)

subsection \<open>No missing values in the Track\<close>

text \<open>
  Claim C1, for the NetCDF (array) section: for every file, every target identifier and
  every prior state of the notebook, each data point of the Track that the extraction
  returns has a latitude that is not NaN, a longitude that is not NaN, a wind speed
  other than -9999 and a pressure other than -9999.
\<close>

theorem array_track_no_missing_values:
  assumes "array_track nc target s = Inr tr" and "ob \<in> set tr"
  shows "\<not> isnan (obs_lat ob) \<and> \<not> isnan (obs_lon ob) \<and>
     obs_wind ob \<noteq> Num (- 9999) \<and> obs_pres ob \<noteq> Num (- 9999)"
proof -
  from assms obtain s3 where "tr = filter valid (candidates s3)"
    by (auto simp: array_track_Inr)
  with assms(2) have "valid ob" by simp
  then show ?thesis by (rule valid_fields)
qed

theorem array_track_no_missing_values_witness:
  "array_track nc_example ''2012166N09269'' fresh =
       Inr [(Num 9.5, Num (- 92), Num 42, Num 1002, Num 56093.25)] \<and>
   \<not> isnan (obs_lat (Num 9.5, Num (- 92), Num 42, Num 1002, Num 56093.25)) \<and>
   \<not> isnan (obs_lon (Num 9.5, Num (- 92), Num 42, Num 1002, Num 56093.25)) \<and>
   obs_wind (Num 9.5, Num (- 92), Num 42, Num 1002, Num 56093.25) \<noteq> Num (- 9999) \<and>
   obs_pres (Num 9.5, Num (- 92), Num 42, Num 1002, Num 56093.25) \<noteq> Num (- 9999)"
proof -
  have run: "array_track nc_example ''2012166N09269'' fresh =
       Inr [(Num 9.5, Num (- 92), Num 42, Num 1002, Num 56093.25)]"
    by code_simp
  have mem: "(Num 9.5, Num (- 92), Num 42, Num 1002, Num 56093.25) \<in>
       set [(Num 9.5, Num (- 92), Num 42, Num 1002, Num 56093.25)]"
    by simp
  from array_track_no_missing_values [OF run mem] run show ?thesis by blast
qed

text \<open>
  The selection of the CSV section applies no test to the values: a row named PHOEBE
  whose latitude is NaN is part of what it returns.
\<close>

theorem tabular_keeps_nan_row:
  "tabular_extract [row_ok, row_nan] ''PHOEBE'' = Inr [row_ok, row_nan] \<and> isnan (LAT row_nan)"
  by (simp add: tabular_extract_def select_name_def row_ok_def row_nan_def)

subsection \<open>A target that is absent\<close>




subsection \<open>Candidates and failures of the NetCDF section\<close>

lemma array_candidates_Inr:
  "array_candidates nc target s = Inr cs \<longleftrightarrow>
     (\<exists>s3. array_select nc target s = Inr s3 \<and> cs = candidates s3)"
  by (auto simp: array_candidates_def bind_r_eq_Inr)

lemma array_track_candidates:
  "array_candidates nc target s = Inr cs \<Longrightarrow> array_track nc target s = Inr (filter valid cs)"
  by (auto simp: array_candidates_Inr array_track_Inr)

lemma array_track_has_candidates:
  "array_track nc target s = Inr tr \<Longrightarrow>
     \<exists>cs. array_candidates nc target s = Inr cs \<and> tr = filter valid cs"
  by (auto simp: array_candidates_Inr array_track_Inr)


subsection \<open>Ending the process\<close>




subsection \<open>A storm with no valid data point\<close>

text \<open>
  Claim C5, for the NetCDF (array) section: when the target is among the decoded
  identifiers and every candidate data point of the storm fails the test of the
  comprehension, the extraction returns the empty Track. That is a value, not a
  failure: it is neither \<open>StormNotFound\<close> nor the \<open>SystemExit\<close> of an absent target.
\<close>

theorem array_all_filtered_empty_track:
  assumes "decode_all (var_sid nc) = Inr ids" and "target \<in> set ids"
    and "array_candidates nc target s = Inr cs"
    and "list_all (\<lambda>ob. \<not> valid ob) cs"
  shows "array_track nc target s = Inr [] \<and>
     array_track nc target s \<noteq> Inl StormNotFound \<and>
     array_track nc target s \<noteq> Inl SystemExit"
proof -
  from assms(4) have "filter valid cs = []"
    by (simp add: filter_empty_conv list_all_iff)
  with array_track_candidates [OF assms(3)] show ?thesis by simp
qed

theorem array_all_filtered_empty_track_witness:
  "decode_all (var_sid nc_all_missing) = Inr [''2012166N09269''] \<and>
   ''2012166N09269'' \<in> set [''2012166N09269''] \<and>
   array_candidates nc_all_missing ''2012166N09269'' fresh =
     Inr [(NaN, Num (- 91), Num 40, Num 1005, Num 56093),
          (Num 9, Num (- 92), Num (- 9999), Num 1002, Num 56093.25)] \<and>
   list_all (\<lambda>ob. \<not> valid ob)
     [(NaN, Num (- 91), Num 40, Num 1005, Num 56093),
      (Num 9, Num (- 92), Num (- 9999), Num 1002, Num 56093.25)] \<and>
   array_track nc_all_missing ''2012166N09269'' fresh = Inr []"
proof -
  have a: "decode_all (var_sid nc_all_missing) = Inr [''2012166N09269'']" by code_simp
  have b: "''2012166N09269'' \<in> set [''2012166N09269'']" by simp
  have c: "array_candidates nc_all_missing ''2012166N09269'' fresh =
     Inr [(NaN, Num (- 91), Num 40, Num 1005, Num 56093),
          (Num 9, Num (- 92), Num (- 9999), Num 1002, Num 56093.25)]" by code_simp
  have d: "list_all (\<lambda>ob. \<not> valid ob)
     [(NaN, Num (- 91), Num 40, Num 1005, Num 56093),
      (Num 9, Num (- 92), Num (- 9999), Num 1002, Num 56093.25)]" by simp
  from array_all_filtered_empty_track [OF a b c d] a b c d show ?thesis by blast
qed

text \<open>
  In the shapefile section the only row named PHOEBE has a NaN longitude, and the
  selection returns it: the result is not empty.
\<close>

theorem geometry_keeps_only_invalid_row:
  "NAME gdf_row_nan = ''PHOEBE'' \<and> isnan (LON gdf_row_nan) \<and>
   geometry_extract [gdf_row_nan] ''PHOEBE'' = Inr [gdf_row_nan] \<and>
   geometry_extract [gdf_row_nan] ''PHOEBE'' \<noteq> Inr []"
  by (simp add: geometry_extract_def select_name_def gdf_row_nan_def)

subsection \<open>Where the candidates come from\<close>

lemma np_where_eq_set [simp]:
  "i \<in> set (np_where_eq ids target) \<longleftrightarrow> i < length ids \<and> ids ! i = target"
  by (auto simp: np_where_eq_def)

lemma select_flat_Inr:
  "select_flat a idx = Inr xs \<longleftrightarrow> (\<forall>i\<in>set idx. i < length a) \<and> xs = concat (map ((!) a) idx)"
  by (auto simp: select_flat_def take_rows_def bind_r_eq_Inr list_all_iff)

lemma decode_all_length: "decode_all sids = Inr ids \<Longrightarrow> length ids = length sids"
  by (induction sids arbitrary: ids) (auto simp: bind_r_eq_Inr)

lemma array_candidates_source:
  assumes "array_candidates nc target s = Inr cs"
  shows "\<exists>ids. decode_all (var_sid nc) = Inr ids \<and> target \<in> set ids \<and>
     cs = zip5 (concat (map ((!) (var_lat nc)) (np_where_eq ids target)))
            (concat (map ((!) (var_lon nc)) (np_where_eq ids target)))
            (concat (map ((!) (var_wmo_wind nc)) (np_where_eq ids target)))
            (concat (map ((!) (var_wmo_pres nc)) (np_where_eq ids target)))
            (concat (map ((!) (var_time nc)) (np_where_eq ids target)))"
proof -
  from assms obtain s1 s2 s3 where
    s1: "read_variables nc s = Inr s1" and s2: "verify_target target s1 = Inr s2"
    and s3: "select_storm s2 = Inr s3" and cs: "cs = candidates s3"
    by (auto simp: array_candidates_Inr array_select_def bind_r_eq_Inr)
  from s1 obtain ids where ids: "decode_all (var_sid nc) = Inr ids"
    and s1': "storm_ids s1 = ids" "latitudes s1 = var_lat nc" "longitudes s1 = var_lon nc"
      "wmo_wind s1 = var_wmo_wind nc" "wmo_pres s1 = var_wmo_pres nc" "times_var s1 = var_time nc"
    by (auto simp: read_variables_def bind_r_eq_Inr)
  from s2 have mem: "target \<in> set ids" and s2': "s2 = s1\<lparr>target_sid := target\<rparr>"
    using s1'(1) by (auto simp: verify_target_Inr)
  from s3 have "candidates s3 =
     zip5 (concat (map ((!) (latitudes s2)) (np_where_eq (storm_ids s2) (target_sid s2))))
          (concat (map ((!) (longitudes s2)) (np_where_eq (storm_ids s2) (target_sid s2))))
          (concat (map ((!) (wmo_wind s2)) (np_where_eq (storm_ids s2) (target_sid s2))))
          (concat (map ((!) (wmo_pres s2)) (np_where_eq (storm_ids s2) (target_sid s2))))
          (concat (map ((!) (times_var s2)) (np_where_eq (storm_ids s2) (target_sid s2))))"
    by (auto simp: select_storm_def Let_def bind_r_eq_Inr select_flat_Inr candidates_def)
  with s2' s1' cs ids mem show ?thesis by simp
qed

lemma zip5_concat:
  assumes "\<forall>i\<in>set idx. length (b ! i) = length (a ! i) \<and> length (c ! i) = length (a ! i) \<and>
      length (d ! i) = length (a ! i) \<and> length (e ! i) = length (a ! i)"
  shows "zip5 (concat (map ((!) a) idx)) (concat (map ((!) b) idx)) (concat (map ((!) c) idx))
           (concat (map ((!) d) idx)) (concat (map ((!) e) idx)) =
         concat (map (\<lambda>i. zip5 (a ! i) (b ! i) (c ! i) (d ! i) (e ! i)) idx)"
  using assms by (induction idx) (simp_all add: zip5_def)

lemma in_zip5:
  assumes "ob \<in> set (zip5 as bs cs ds es)"
    and "length bs = length as" "length cs = length as" "length ds = length as"
      "length es = length as"
  shows "\<exists>j<length as. ob = (as ! j, bs ! j, cs ! j, ds ! j, es ! j)"
  using assms by (auto simp: in_set_conv_nth zip5_def)

lemma same_shape_row:
  "same_shape n a b \<Longrightarrow> i < n \<Longrightarrow> length (b ! i) = length (a ! i)"
  by (simp add: same_shape_def list_all_iff)

lemma candidates_positions:
  assumes co: "co_indexed nc" and ids: "decode_all (var_sid nc) = Inr ids"
    and cs: "array_candidates nc target s = Inr cs" and ob: "ob \<in> set cs"
  shows "\<exists>i j. i < length ids \<and> ids ! i = target \<and> j < length (var_lat nc ! i) \<and>
     ob = obs_at nc i j"
proof -
  let ?idx = "np_where_eq ids target"
  have len: "length ids = length (var_sid nc)" using ids by (rule decode_all_length)
  have rows: "length (var_lon nc ! i) = length (var_lat nc ! i) \<and>
      length (var_wmo_wind nc ! i) = length (var_lat nc ! i) \<and>
      length (var_wmo_pres nc ! i) = length (var_lat nc ! i) \<and>
      length (var_time nc ! i) = length (var_lat nc ! i)" if "i \<in> set ?idx" for i
  proof -
    from that len have "i < length (var_sid nc)" by simp
    with co show ?thesis by (auto simp: co_indexed_def Let_def dest: same_shape_row)
  qed
  from array_candidates_source [OF cs] ids
  have "cs = zip5 (concat (map ((!) (var_lat nc)) ?idx)) (concat (map ((!) (var_lon nc)) ?idx))
      (concat (map ((!) (var_wmo_wind nc)) ?idx)) (concat (map ((!) (var_wmo_pres nc)) ?idx))
      (concat (map ((!) (var_time nc)) ?idx))"
    by simp
  also have "\<dots> = concat (map (\<lambda>i. zip5 (var_lat nc ! i) (var_lon nc ! i) (var_wmo_wind nc ! i)
      (var_wmo_pres nc ! i) (var_time nc ! i)) ?idx)"
    by (rule zip5_concat) (use rows in blast)
  finally obtain i where i: "i \<in> set ?idx"
    and "ob \<in> set (zip5 (var_lat nc ! i) (var_lon nc ! i) (var_wmo_wind nc ! i)
      (var_wmo_pres nc ! i) (var_time nc ! i))"
    using ob by auto
  with rows [OF i] obtain j where "j < length (var_lat nc ! i)" "ob = obs_at nc i j"
    unfolding obs_at_def by (blast dest: in_zip5)
  with i show ?thesis by auto
qed

text \<open>
  Claim C7: the Track returned by the NetCDF section is the list of the candidate data
  points that pass the test, so it is a subsequence of the candidates; a candidate
  with a NaN latitude, a NaN longitude, a wind of -9999 or a pressure of -9999 is not
  in the Track; and, when the arrays of the file share their shape, every data point of
  the Track is, with all five fields, the data point of the file at some position
  \<open>(i, j)\<close> whose decoded identifier is the target.
\<close>

theorem track_is_valid_candidates_verbatim:
  assumes "array_track nc target s = Inr tr"
  shows "\<exists>cs. array_candidates nc target s = Inr cs \<and> tr = filter valid cs \<and> subseq tr cs \<and>
     (\<forall>ob\<in>set cs. isnan (obs_lat ob) \<or> isnan (obs_lon ob) \<or> obs_wind ob = Num (- 9999) \<or>
        obs_pres ob = Num (- 9999) \<longrightarrow> ob \<notin> set tr) \<and>
     (co_indexed nc \<longrightarrow>
        (\<forall>ob\<in>set tr. \<exists>ids i j. decode_all (var_sid nc) = Inr ids \<and> i < length ids \<and>
           ids ! i = target \<and> j < length (var_lat nc ! i) \<and> ob = obs_at nc i j))"
proof -
  from array_track_has_candidates [OF assms] obtain cs
    where cs: "array_candidates nc target s = Inr cs" and tr: "tr = filter valid cs" by blast
  have "subseq tr cs" unfolding tr by (rule subseq_filter_left)
  moreover have "ob \<notin> set tr"
    if "isnan (obs_lat ob) \<or> isnan (obs_lon ob) \<or> obs_wind ob = Num (- 9999) \<or>
        obs_pres ob = Num (- 9999)" for ob
    using that valid_fields [of ob] by (auto simp: tr)
  moreover have "\<exists>ids i j. decode_all (var_sid nc) = Inr ids \<and> i < length ids \<and>
           ids ! i = target \<and> j < length (var_lat nc ! i) \<and> ob = obs_at nc i j"
    if "co_indexed nc" "ob \<in> set tr" for ob
  proof -
    from array_candidates_source [OF cs] obtain ids where "decode_all (var_sid nc) = Inr ids"
      by blast
    moreover from that(2) have "ob \<in> set cs" by (simp add: tr)
    ultimately show ?thesis using candidates_positions [OF that(1) _ cs] by blast
  qed
  ultimately show ?thesis using cs tr by blast
qed

theorem track_is_valid_candidates_verbatim_witness:
  "array_track nc_example ''2012166N09269'' fresh =
       Inr [(Num 9.5, Num (- 92), Num 42, Num 1002, Num 56093.25)] \<and>
   co_indexed nc_example \<and>
   (\<exists>cs. array_candidates nc_example ''2012166N09269'' fresh = Inr cs \<and>
      subseq [(Num 9.5, Num (- 92), Num 42, Num 1002, Num 56093.25)] cs) \<and>
   (\<exists>ids i j. decode_all (var_sid nc_example) = Inr ids \<and> i < length ids \<and>
      ids ! i = ''2012166N09269'' \<and> j < length (var_lat nc_example ! i) \<and>
      (Num 9.5, Num (- 92), Num 42, Num 1002, Num 56093.25) = obs_at nc_example i j)"
proof -
  have run: "array_track nc_example ''2012166N09269'' fresh =
       Inr [(Num 9.5, Num (- 92), Num 42, Num 1002, Num 56093.25)]"
    by code_simp
  have co: "co_indexed nc_example" by code_simp
  from track_is_valid_candidates_verbatim [OF run] co run show ?thesis
    by auto
qed

subsection \<open>Order\<close>

lemma transp_le_time: "transp (\<lambda>a b. le (obs_time a) (obs_time b))"
proof (rule transpI)
  fix a b c :: obs
  assume "le (obs_time a) (obs_time b)" "le (obs_time b) (obs_time c)"
  then show "le (obs_time a) (obs_time c)"
    by (cases "obs_time a"; cases "obs_time b"; cases "obs_time c") simp_all
qed

lemma ascending_sorted_wrt:
  "ascending tr \<longleftrightarrow> sorted_wrt (\<lambda>a b. le (obs_time a) (obs_time b)) tr"
  unfolding ascending_def by (rule sorted_wrt_iff_nth_Suc_transp [OF transp_le_time, symmetric])

text \<open>
  Claim C3, as the code has it: no cell sorts. Each section returns its matching
  records in the positional order of the source: the selections of the CSV and
  shapefile sections are subsequences of the table's rows, and the Track of the NetCDF
  section is the valid candidates in candidate order (a subsequence of the candidates,
  so data points with equal timestamps keep their input order). Hence, when the
  candidates are ascending in time in the source, the Track is ascending in time.
\<close>

theorem track_keeps_source_order:
  assumes "array_candidates nc target s = Inr cs"
  shows "(\<exists>tr. array_track nc target s = Inr tr \<and> tr = filter valid cs \<and> subseq tr cs \<and>
       (ascending cs \<longrightarrow> ascending tr)) \<and>
     (\<exists>rows. tabular_extract ibtracs_data name = Inr rows \<and> subseq rows ibtracs_data) \<and>
     (\<exists>rows. geometry_extract ibtracs_gdf name = Inr rows \<and> subseq rows ibtracs_gdf)"
proof (intro conjI)
  have "array_track nc target s = Inr (filter valid cs)"
    using assms by (rule array_track_candidates)
  moreover have "subseq (filter valid cs) cs" by (rule subseq_filter_left)
  moreover have "ascending (filter valid cs)" if "ascending cs"
    using that unfolding ascending_sorted_wrt by (rule sorted_wrt_filter)
  ultimately show "\<exists>tr. array_track nc target s = Inr tr \<and> tr = filter valid cs \<and>
      subseq tr cs \<and> (ascending cs \<longrightarrow> ascending tr)"
    by blast
  show "\<exists>rows. tabular_extract ibtracs_data name = Inr rows \<and> subseq rows ibtracs_data"
    by (simp add: tabular_extract_def select_name_def)
  show "\<exists>rows. geometry_extract ibtracs_gdf name = Inr rows \<and> subseq rows ibtracs_gdf"
    by (simp add: geometry_extract_def select_name_def)
qed

theorem track_keeps_source_order_witness:
  "array_candidates nc_example ''2012166N09269'' fresh =
     Inr [(Num 9, Num (- 91), Num (- 9999), Num 1005, Num 56093),
          (Num 9.5, Num (- 92), Num 42, Num 1002, Num 56093.25),
          (Num 10, Num (- 93), Num 45, Num (- 9999), Num 56093.5),
          (NaN, Num (- 94), Num 50, Num 990, Num 56093.75)] \<and>
   ascending [(Num 9, Num (- 91), Num (- 9999), Num 1005, Num 56093),
          (Num 9.5, Num (- 92), Num 42, Num 1002, Num 56093.25),
          (Num 10, Num (- 93), Num 45, Num (- 9999), Num 56093.5),
          (NaN, Num (- 94), Num 50, Num 990, Num 56093.75)] \<and>
   (\<exists>tr. array_track nc_example ''2012166N09269'' fresh = Inr tr \<and> ascending tr)"
proof -
  have c: "array_candidates nc_example ''2012166N09269'' fresh =
     Inr [(Num 9, Num (- 91), Num (- 9999), Num 1005, Num 56093),
          (Num 9.5, Num (- 92), Num 42, Num 1002, Num 56093.25),
          (Num 10, Num (- 93), Num 45, Num (- 9999), Num 56093.5),
          (NaN, Num (- 94), Num 50, Num 990, Num 56093.75)]"
    by code_simp
  have a: "ascending [(Num 9, Num (- 91), Num (- 9999), Num 1005, Num 56093),
          (Num 9.5, Num (- 92), Num 42, Num 1002, Num 56093.25),
          (Num 10, Num (- 93), Num 45, Num (- 9999), Num 56093.5),
          (NaN, Num (- 94), Num 50, Num 990, Num 56093.75)]"
    by (simp add: ascending_sorted_wrt)
  from track_keeps_source_order [OF c] a c show ?thesis by blast
qed

text \<open>
  On a file whose two valid data points are stored in descending time order the Track
  has them in that order.
\<close>

theorem descending_source_descending_track:
  "array_track nc_descending ''2012166N09269'' fresh =
     Inr [(Num 9, Num (- 91), Num 40, Num 1005, Num 2),
          (Num 10, Num (- 92), Num 45, Num 1002, Num 1)] \<and>
   \<not> le (Num 2) (Num 1)"
  by code_simp

subsection \<open>The scenario of three identifiers\<close>

lemma array_select_indices:
  assumes "array_select nc target s = Inr s3" and "decode_all (var_sid nc) = Inr ids"
  shows "storm_indices s3 = np_where_eq ids target"
proof -
  from assms(1) obtain s1 s2 where
    s1: "read_variables nc s = Inr s1" and s2: "verify_target target s1 = Inr s2"
    and s3: "select_storm s2 = Inr s3"
    by (auto simp: array_select_def bind_r_eq_Inr)
  from s1 assms(2) have "storm_ids s1 = ids" by (auto dest: read_variables_Inr)
  with s2 have "storm_ids s2 = ids" "target_sid s2 = target" by (auto simp: verify_target_Inr)
  with s3 show ?thesis by (auto simp: select_storm_def Let_def bind_r_eq_Inr)
qed

text \<open>
  Claim C8: for every file whose identifiers decode to 2012166N09269, 2012166N09269,
  1999001N10200 and for the target 2012166N09269, exactly the positions 0 and 1 are
  selected, in that order: these are the positions that hold the target, and the
  selection cell stores them as the storm's indices.
\<close>

theorem scenario_selects_first_two:
  assumes "decode_all (var_sid nc) = Inr [''2012166N09269'', ''2012166N09269'', ''1999001N10200'']"
  shows "np_where_eq [''2012166N09269'', ''2012166N09269'', ''1999001N10200''] ''2012166N09269'' = [0, 1] \<and>
     (array_select nc ''2012166N09269'' s = Inr s3 \<longrightarrow> storm_indices s3 = [0, 1])"
proof
  show w: "np_where_eq [''2012166N09269'', ''2012166N09269'', ''1999001N10200''] ''2012166N09269'' = [0, 1]"
    by code_simp
  show "array_select nc ''2012166N09269'' s = Inr s3 \<longrightarrow> storm_indices s3 = [0, 1]"
    using array_select_indices [OF _ assms] w by simp
qed

theorem scenario_selects_first_two_witness:
  "decode_all (var_sid nc_example) = Inr [''2012166N09269'', ''2012166N09269'', ''1999001N10200''] \<and>
   bind_r (array_select nc_example ''2012166N09269'' fresh) (\<lambda>s3. Inr (storm_indices s3)) = Inr [0, 1] \<and>
   np_where_eq [''2012166N09269'', ''2012166N09269'', ''1999001N10200''] ''2012166N09269'' = [0, 1]"
proof -
  have d: "decode_all (var_sid nc_example) =
      Inr [''2012166N09269'', ''2012166N09269'', ''1999001N10200'']" by code_simp
  have r: "bind_r (array_select nc_example ''2012166N09269'' fresh) (\<lambda>s3. Inr (storm_indices s3)) =
      Inr [0, 1]" by code_simp
  from scenario_selects_first_two [OF d] d r show ?thesis by blast
qed

subsection \<open>Determinism and idempotence\<close>

lemma zip5_unzip:
  "zip5 (map obs_lat xs) (map obs_lon xs) (map obs_wind xs) (map obs_pres xs) (map obs_time xs) = xs"
  by (induction xs) (auto simp: zip5_def)

lemma filter_valid_idem: "filter_valid (filter_valid s) = filter_valid s"
proof (cases "filter valid (candidates s) = []")
  case True
  then have "filter_valid s = s\<lparr>valid_data := []\<rparr>" by (simp add: filter_valid_def)
  moreover have "candidates (s\<lparr>valid_data := []\<rparr>) = candidates s" by (simp add: candidates_def)
  ultimately show ?thesis using True by (simp add: filter_valid_def)
next
  case False
  let ?vd = "filter valid (candidates s)"
  have "candidates (filter_valid s) = ?vd"
    using False by (simp add: filter_valid_def Let_def candidates_def zip5_unzip)
  moreover have "filter valid ?vd = ?vd" by simp
  ultimately show ?thesis using False by (simp add: filter_valid_def Let_def)
qed

text \<open>
  When no candidate is valid the cell leaves the selected columns as they are: the
  later cells then see the unfiltered selection, while \<open>valid_data\<close> is empty.
\<close>

lemma filter_valid_empty:
  assumes "filter valid (candidates s) = []"
  shows "filter_valid s = s\<lparr>valid_data := []\<rparr>"
  using assms by (simp add: filter_valid_def)

lemma array_extract_state_free: "array_extract nc target s = array_extract nc target s'"
proof (cases "decode_all (var_sid nc)")
  case (Inl e)
  then show ?thesis
    by (simp add: array_extract_def array_select_def read_variables_def bind_r_Inl)
next
  case (Inr ids)
  show ?thesis
  proof (cases "target \<in> set ids")
    case False
    with Inr show ?thesis
      by (simp add: array_extract_def array_select_def read_variables_def verify_target_def
          bind_r_Inl bind_r_Inr)
  next
    case True
    with Inr show ?thesis
      by (cases s; cases s')
        (auto simp: array_extract_def array_select_def read_variables_def verify_target_def
          select_storm_def filter_valid_def candidates_def Let_def bind_r_def
          split: sum.splits)
  qed
qed

text \<open>
  Claim C9: the state the extraction reaches, and so the Track, depends on the file
  and the target only, not on the state of the notebook in which the cells are started.
  Running the extraction a second time, from the state the first run left, gives the
  same outcome as the first run. Running the filtering cell again on the variables it
  has itself reassigned changes nothing, and neither does selecting by name again.
\<close>

theorem extraction_deterministic_idempotent:
  "array_extract nc target s = array_extract nc target s' \<and>
   array_track nc target s = array_track nc target s' \<and>
   bind_r (array_extract nc target s) (array_extract nc target) = array_extract nc target s \<and>
   filter_valid (filter_valid s) = filter_valid s \<and>
   select_name (select_name df name) name = select_name df name"
proof (intro conjI)
  show "array_extract nc target s = array_extract nc target s'"
    by (rule array_extract_state_free)
  then show "array_track nc target s = array_track nc target s'"
    by (simp add: array_track_def)
  show "bind_r (array_extract nc target s) (array_extract nc target) = array_extract nc target s"
  proof (cases "array_extract nc target s")
    case (Inl e)
    then show ?thesis by (simp add: bind_r_Inl)
  next
    case (Inr s4)
    then show ?thesis using array_extract_state_free [of nc target s4 s] by (simp add: bind_r_Inr)
  qed
  show "filter_valid (filter_valid s) = filter_valid s" by (rule filter_valid_idem)
  show "select_name (select_name df name) name = select_name df name"
    by (simp add: select_name_def)
qed

subsection \<open>Trimmed identifiers\<close>

lemma last_dropWhile: "dropWhile P xs \<noteq> [] \<Longrightarrow> last (dropWhile P xs) = last xs"
  by (induction xs) (auto split: if_splits)

lemma strip_hd: "strip x \<noteq> [] \<Longrightarrow> \<not> isspace (hd (strip x))"
proof -
  assume ne: "strip x \<noteq> []"
  let ?y = "dropWhile isspace x"
  from ne have d: "dropWhile isspace (rev ?y) \<noteq> []" by (simp add: strip_def)
  then have y: "?y \<noteq> []" by (cases "?y") simp_all
  have "hd (strip x) = last (dropWhile isspace (rev ?y))"
    using d by (simp add: strip_def hd_rev)
  also have "\<dots> = last (rev ?y)" using d by (rule last_dropWhile)
  also have "\<dots> = hd ?y" using y by (simp add: last_rev)
  finally show ?thesis using hd_dropWhile [OF y] by simp
qed

lemma strip_last: "strip x \<noteq> [] \<Longrightarrow> \<not> isspace (last (strip x))"
proof -
  assume ne: "strip x \<noteq> []"
  let ?z = "dropWhile isspace (rev (dropWhile isspace x))"
  from ne have z: "?z \<noteq> []" by (simp add: strip_def)
  have "last (strip x) = hd ?z" using z by (simp add: strip_def last_rev)
  then show ?thesis using hd_dropWhile [OF z] by simp
qed

lemma decode_sid_Inr: "decode_sid sid = Inr x \<Longrightarrow> x = strip (concat sid)"
  by (auto simp: decode_sid_def astype_str_def join_def bind_r_eq_Inr split: if_splits)

lemma decode_all_stripped:
  "decode_all sids = Inr ids \<Longrightarrow> x \<in> set ids \<Longrightarrow> \<exists>sid\<in>set sids. x = strip (concat sid)"
  by (induction sids arbitrary: ids) (auto simp: bind_r_eq_Inr dest: decode_sid_Inr)

lemma decoded_not_padded:
  assumes "decode_all sids = Inr ids" and "x \<in> set ids"
  shows "\<not> padded x"
proof -
  from decode_all_stripped [OF assms] obtain sid where "x = strip (concat sid)" by blast
  then show ?thesis using strip_hd [of "concat sid"] strip_last [of "concat sid"]
    by (auto simp: padded_def)
qed

text \<open>
  Claim C10: every decoded identifier is stripped, so none starts or ends with a
  whitespace character; a padded target is therefore not among the decoded identifiers,
  matches no position, and the extraction ends with the \<open>SystemExit\<close> of an absent
  target.
\<close>

theorem decoded_identifiers_trimmed:
  assumes "decode_all (var_sid nc) = Inr ids"
  shows "(\<forall>x\<in>set ids. \<not> padded x) \<and>
     (padded target \<longrightarrow>
        target \<notin> set ids \<and> np_where_eq ids target = [] \<and>
        array_track nc target s = Inl SystemExit)"
proof (intro conjI ballI impI)
  fix x assume "x \<in> set ids"
  with assms show "\<not> padded x" by (rule decoded_not_padded)
next
  assume p: "padded target"
  then show absent: "target \<notin> set ids" using decoded_not_padded [OF assms] by blast
  then show "np_where_eq ids target = []"
    by (auto simp: np_where_eq_def filter_empty_conv)
  from assms absent have "array_select nc target s = Inl SystemExit"
    unfolding array_select_exit by blast
  then show "array_track nc target s = Inl SystemExit" by (simp add: array_track_Inl)
qed

theorem decoded_identifiers_trimmed_witness:
  "decode_all (var_sid nc_example) = Inr [''2012166N09269'', ''2012166N09269'', ''1999001N10200''] \<and>
   var_sid nc_example ! 0 = cells ''2012166N09269  '' \<and>
   \<not> padded ''2012166N09269'' \<and> \<not> padded ''1999001N10200'' \<and>
   padded ''2012166N09269  '' \<and>
   ''2012166N09269  '' \<notin> set [''2012166N09269'', ''2012166N09269'', ''1999001N10200''] \<and>
   array_track nc_example ''2012166N09269  '' fresh = Inl SystemExit"
proof -
  have d: "decode_all (var_sid nc_example) =
      Inr [''2012166N09269'', ''2012166N09269'', ''1999001N10200'']" by code_simp
  have r: "var_sid nc_example ! 0 = cells ''2012166N09269  ''" by (simp add: nc_example_def)
  have p: "padded ''2012166N09269  ''" by code_simp
  from decoded_identifiers_trimmed [OF d, of "''2012166N09269  ''" fresh] d r p
  show ?thesis by auto
qed

section \<open>Properties of the conversion to dates\<close>

subsection \<open>Ordinals and dates\<close>









subsection \<open>Normalised durations\<close>









subsection \<open>The conversion\<close>






end
